theory Spec2Isabelle
  imports Complex_Main
begin

section \<open>JavaScript numbers and errors\<close>

text \<open>
  The detector of \<^verbatim>\<open>static/js/liveness.js\<close> computes with JavaScript numbers. They are
  modelled as real numbers (no rounding, no overflow, no signed zero), extended by the three
  special values that a division by zero produces, because the two aspect ratios divide by a
  landmark distance that is zero for a degenerate contour. Counters are natural numbers.
\<close>

datatype number = Fin real | PosInf | NegInf | NaN

fun js_add :: "number \<Rightarrow> number \<Rightarrow> number" where
  "js_add (Fin a) (Fin b) = Fin (a + b)"
| "js_add NaN _ = NaN"
| "js_add _ NaN = NaN"
| "js_add PosInf NegInf = NaN"
| "js_add NegInf PosInf = NaN"
| "js_add PosInf _ = PosInf"
| "js_add _ PosInf = PosInf"
| "js_add NegInf _ = NegInf"
| "js_add _ NegInf = NegInf"

fun js_div :: "number \<Rightarrow> number \<Rightarrow> number" where
  "js_div (Fin a) (Fin b) =
     (if b \<noteq> 0 then Fin (a / b)
      else if 0 < a then PosInf else if a < 0 then NegInf else NaN)"
| "js_div NaN _ = NaN"
| "js_div _ NaN = NaN"
| "js_div (Fin a) _ = Fin 0"
| "js_div PosInf (Fin b) = (if 0 \<le> b then PosInf else NegInf)"
| "js_div NegInf (Fin b) = (if 0 \<le> b then NegInf else PosInf)"
| "js_div _ _ = NaN"

fun js_less :: "number \<Rightarrow> number \<Rightarrow> bool" where
  "js_less (Fin a) (Fin b) = (a < b)"
| "js_less NaN _ = False"
| "js_less _ NaN = False"
| "js_less NegInf NegInf = False"
| "js_less NegInf _ = True"
| "js_less _ NegInf = False"
| "js_less PosInf _ = False"
| "js_less _ PosInf = True"

datatype js_error = ReferenceError | TypeError | DetectorError

section \<open>Inputs of one call\<close>

record point =
  pt_x :: real
  pt_y :: real

text \<open>The accessors of a face-api landmark object, as the detector reads them.\<close>

record FaceLandmarks =
  getLeftEye :: "point list"
  getRightEye :: "point list"
  getMouth :: "point list"
  getNose :: "point list"

text \<open>\<^verbatim>\<open>detection.landmarks\<close> may be missing; every step guards it.\<close>

record detection =
  landmarks :: "FaceLandmarks option"

text \<open>
  The awaited detector expression of the \<^verbatim>\<open>try\<close> block either throws or resolves
  to an array of detections.
\<close>

datatype detector_outcome = Throws | Resolves "detection list"

text \<open>
  The identifier \<^verbatim>\<open>faceapi\<close> is a global that exists only once the face-api script
  has been loaded by \<^verbatim>\<open>initialize\<close>. Reading an identifier that has no binding
  raises a ReferenceError; a binding may also hold a falsy value.
\<close>

datatype global_binding = Unresolvable | Nullish | Library

text \<open>
  Everything one call of \<^verbatim>\<open>detectLiveness\<close> reads from outside the session:
  whether the argument \<^verbatim>\<open>videoElement\<close> is truthy, the global \<^verbatim>\<open>faceapi\<close>,
  what the detector answers, and the values that \<^verbatim>\<open>Date.now()\<close> and
  \<^verbatim>\<open>Math.random()\<close> return during the call.
\<close>

record frame_env =
  videoElement :: bool
  faceapi :: global_binding
  detectAllFaces :: detector_outcome
  Date_now :: nat
  Math_random :: real

section \<open>The session state\<close>

record sample =
  at_x :: real
  at_y :: real
  timestamp :: nat

text \<open>
  The mutable fields of class \<^verbatim>\<open>LivenessDetector\<close>. The field
  \<^verbatim>\<open>headMovement\<close> is written by the constructor only and read nowhere, and
  \<^verbatim>\<open>maxHistorySize\<close> and the upper-case constants are never reassigned: they are
  the definitions below.
\<close>

record LivenessDetector =
  faceLandmarks :: "FaceLandmarks option"
  eyeAspectRatio :: number
  blinkCount :: nat
  livenessStatus :: string
  eyeClosedFrames :: nat
  eyeOpenFrames :: nat
  blinkDetected :: bool
  headMovementDetected :: bool
  mouthOpenFrames :: nat
  mouthClosedFrames :: nat
  mouthOpenDetected :: bool
  antiSpoofingScore :: real
  livenessScore :: real
  isLivenessActive :: bool
  frameHistory :: "sample list"
  photoSpoofingDetected :: bool
  screenSpoofingDetected :: bool
  realPersonScore :: real

definition maxHistorySize :: nat where "maxHistorySize = 10"
definition EYE_AR_THRESHOLD :: real where "EYE_AR_THRESHOLD = 0.25"
definition EYE_AR_CONSEC_FRAMES :: nat where "EYE_AR_CONSEC_FRAMES = 3"
definition MOUTH_AR_THRESHOLD :: real where "MOUTH_AR_THRESHOLD = 0.35"
definition MOUTH_AR_CONSEC_FRAMES :: nat where "MOUTH_AR_CONSEC_FRAMES = 5"
definition MIN_BLINKS_REQUIRED :: nat where "MIN_BLINKS_REQUIRED = 2"
definition MIN_LIVENESS_SCORE :: real where "MIN_LIVENESS_SCORE = 80"
definition ANTI_SPOOFING_THRESHOLD :: real where "ANTI_SPOOFING_THRESHOLD = 70"
definition HEAD_MOVEMENT_THRESHOLD :: real where "HEAD_MOVEMENT_THRESHOLD = 5"
definition PHOTO_SPOOFING_THRESHOLD :: real where "PHOTO_SPOOFING_THRESHOLD = 0.1"

text \<open>The constructor.\<close>

definition new_LivenessDetector :: LivenessDetector where
  "new_LivenessDetector =
     \<lparr> faceLandmarks = None, eyeAspectRatio = Fin 0, blinkCount = 0,
       livenessStatus = ''pending'', eyeClosedFrames = 0, eyeOpenFrames = 0,
       blinkDetected = False, headMovementDetected = False, mouthOpenFrames = 0,
       mouthClosedFrames = 0, mouthOpenDetected = False, antiSpoofingScore = 0,
       livenessScore = 0, isLivenessActive = False, frameHistory = [],
       photoSpoofingDetected = False, screenSpoofingDetected = False,
       realPersonScore = 0 \<rparr>"

section \<open>The returned snapshot\<close>

text \<open>
  The object literal returned by \<^verbatim>\<open>getLivenessData\<close> has thirteen properties; the
  literals returned by the guard and by the \<^verbatim>\<open>catch\<close> block have nine, so the
  four others are optional. A property that shares its name with a field of the session
  carries the prefix \<open>snap_\<close>.
\<close>

record snapshot =
  status :: string
  eyeBlinkCount :: nat
  mouthMovements :: nat
  snap_headMovementDetected :: bool
  snap_antiSpoofingScore :: real
  snap_livenessScore :: real
  isActive :: bool
  snap_blinkDetected :: "bool option"
  snap_mouthOpenDetected :: "bool option"
  spoofingDetected :: bool
  snap_realPersonScore :: real
  snap_photoSpoofingDetected :: "bool option"
  snap_screenSpoofingDetected :: "bool option"

definition literal_snapshot :: "string \<Rightarrow> bool \<Rightarrow> snapshot" where
  "literal_snapshot st spoof =
     \<lparr> status = st, eyeBlinkCount = 0, mouthMovements = 0,
       snap_headMovementDetected = False, snap_antiSpoofingScore = 0,
       snap_livenessScore = 0, isActive = False, snap_blinkDetected = None,
       snap_mouthOpenDetected = None, spoofingDetected = spoof,
       snap_realPersonScore = 0, snap_photoSpoofingDetected = None,
       snap_screenSpoofingDetected = None \<rparr>"

definition getLivenessData :: "LivenessDetector \<Rightarrow> snapshot" where
  "getLivenessData s =
     \<lparr> status = livenessStatus s, eyeBlinkCount = blinkCount s,
       mouthMovements = (if mouthOpenDetected s then 1 else 0),
       snap_headMovementDetected = headMovementDetected s,
       snap_antiSpoofingScore = antiSpoofingScore s,
       snap_livenessScore = livenessScore s, isActive = isLivenessActive s,
       snap_blinkDetected = Some (blinkDetected s),
       snap_mouthOpenDetected = Some (mouthOpenDetected s),
       spoofingDetected = (photoSpoofingDetected s \<or> screenSpoofingDetected s),
       snap_realPersonScore = realPersonScore s,
       snap_photoSpoofingDetected = Some (photoSpoofingDetected s),
       snap_screenSpoofingDetected = Some (screenSpoofingDetected s) \<rparr>"

section \<open>Geometric ratios\<close>

text \<open>Array indexing: an index past the end yields \<^verbatim>\<open>undefined\<close>.\<close>

definition idx :: "'a list \<Rightarrow> nat \<Rightarrow> 'a option" where
  "idx xs i = (if i < length xs then Some (xs ! i) else None)"

definition euclid :: "point \<Rightarrow> point \<Rightarrow> real" where
  "euclid point1 point2 =
     sqrt ((pt_x point2 - pt_x point1)\<^sup>2 + (pt_y point2 - pt_y point1)\<^sup>2)"

text \<open>\<^verbatim>\<open>distance\<close>: reading \<^verbatim>\<open>.x\<close> of \<^verbatim>\<open>undefined\<close> raises a TypeError.\<close>

fun distance :: "point option \<Rightarrow> point option \<Rightarrow> js_error + real" where
  "distance (Some point1) (Some point2) = Inr (euclid point1 point2)"
| "distance _ _ = Inl TypeError"

definition getEAR :: "point list \<Rightarrow> js_error + number" where
  "getEAR eyePoints =
     (case distance (idx eyePoints 1) (idx eyePoints 5) of Inl e \<Rightarrow> Inl e | Inr A \<Rightarrow>
      case distance (idx eyePoints 2) (idx eyePoints 4) of Inl e \<Rightarrow> Inl e | Inr B \<Rightarrow>
      case distance (idx eyePoints 0) (idx eyePoints 3) of Inl e \<Rightarrow> Inl e | Inr C \<Rightarrow>
        Inr (js_div (Fin (A + B)) (Fin (2 * C))))"

definition mouthAR :: "point list \<Rightarrow> js_error + number" where
  "mouthAR mouth =
     (case distance (idx mouth 13) (idx mouth 19) of Inl e \<Rightarrow> Inl e | Inr A \<Rightarrow>
      case distance (idx mouth 14) (idx mouth 18) of Inl e \<Rightarrow> Inl e | Inr B \<Rightarrow>
      case distance (idx mouth 15) (idx mouth 17) of Inl e \<Rightarrow> Inl e | Inr C \<Rightarrow>
      case distance (idx mouth 12) (idx mouth 16) of Inl e \<Rightarrow> Inl e | Inr D \<Rightarrow>
        Inr (js_div (Fin (A + B + C)) (Fin (3 * D))))"

text \<open>The value assigned to \<^verbatim>\<open>this.eyeAspectRatio\<close>.\<close>

definition frameEAR :: "FaceLandmarks \<Rightarrow> js_error + number" where
  "frameEAR lm =
     (case getEAR (getLeftEye lm) of Inl e \<Rightarrow> Inl e | Inr leftEAR \<Rightarrow>
      case getEAR (getRightEye lm) of Inl e \<Rightarrow> Inl e | Inr rightEAR \<Rightarrow>
        Inr (js_div (js_add leftEAR rightEAR) (Fin 2)))"

text \<open>
  The assignments at the end of \<^verbatim>\<open>calculateEyeAspectRatio\<close> and of
  \<^verbatim>\<open>calculateMouthAspectRatio\<close>, once the ratio has been computed.
\<close>

definition store_eye_ratio :: "number \<Rightarrow> LivenessDetector \<Rightarrow> LivenessDetector" where
  "store_eye_ratio ear s =
     (if js_less ear (Fin EYE_AR_THRESHOLD)
      then s\<lparr>eyeAspectRatio := ear, eyeClosedFrames := eyeClosedFrames s + 1,
             eyeOpenFrames := 0\<rparr>
      else s\<lparr>eyeAspectRatio := ear, eyeClosedFrames := 0,
             eyeOpenFrames := eyeOpenFrames s + 1\<rparr>)"

definition count_mouth_frames :: "number \<Rightarrow> LivenessDetector \<Rightarrow> LivenessDetector" where
  "count_mouth_frames mar s =
     (if js_less (Fin MOUTH_AR_THRESHOLD) mar
      then s\<lparr>mouthOpenFrames := mouthOpenFrames s + 1, mouthClosedFrames := 0\<rparr>
      else s\<lparr>mouthOpenFrames := 0, mouthClosedFrames := mouthClosedFrames s + 1\<rparr>)"

definition calculateEyeAspectRatio :: "LivenessDetector \<Rightarrow> js_error + LivenessDetector" where
  "calculateEyeAspectRatio s =
     (case faceLandmarks s of None \<Rightarrow> Inr s | Some lm \<Rightarrow>
      case frameEAR lm of Inl e \<Rightarrow> Inl e | Inr ear \<Rightarrow> Inr (store_eye_ratio ear s))"

definition calculateMouthAspectRatio :: "LivenessDetector \<Rightarrow> js_error + LivenessDetector" where
  "calculateMouthAspectRatio s =
     (case faceLandmarks s of None \<Rightarrow> Inr s | Some lm \<Rightarrow>
      case mouthAR (getMouth lm) of Inl e \<Rightarrow> Inl e | Inr mar \<Rightarrow>
        Inr (count_mouth_frames mar s))"

section \<open>Gesture detectors\<close>

definition detectBlinks :: "LivenessDetector \<Rightarrow> LivenessDetector" where
  "detectBlinks s =
     (let s1 = (if EYE_AR_CONSEC_FRAMES \<le> eyeClosedFrames s \<and> \<not> blinkDetected s
                then s\<lparr>blinkCount := blinkCount s + 1, blinkDetected := True\<rparr> else s)
      in if EYE_AR_CONSEC_FRAMES \<le> eyeOpenFrames s1 then s1\<lparr>blinkDetected := False\<rparr> else s1)"

definition detectMouthMovements :: "LivenessDetector \<Rightarrow> LivenessDetector" where
  "detectMouthMovements s =
     (let s1 = (if MOUTH_AR_CONSEC_FRAMES \<le> mouthOpenFrames s \<and> \<not> mouthOpenDetected s
                then s\<lparr>mouthOpenDetected := True\<rparr> else s)
      in if MOUTH_AR_CONSEC_FRAMES \<le> mouthClosedFrames s1
         then s1\<lparr>mouthOpenDetected := False\<rparr> else s1)"

section \<open>Motion history\<close>

text \<open>
  The \<^verbatim>\<open>for\<close> loop of \<^verbatim>\<open>detectHeadMovement\<close> over the consecutive pairs
  of the history. The accumulator is \<^verbatim>\<open>totalMovement\<close>, \<^verbatim>\<open>movements\<close> and
  the field \<^verbatim>\<open>headMovementDetected\<close>, which the loop body may set.
\<close>

fun movement_loop :: "sample list \<Rightarrow> real \<times> nat \<times> bool \<Rightarrow> real \<times> nat \<times> bool" where
  "movement_loop (prv # cur # rest) (totalMovement, movements, detected) =
     (let movementX = \<bar>at_x cur - at_x prv\<bar>;
          movementY = \<bar>at_y cur - at_y prv\<bar>
      in movement_loop (cur # rest)
           (totalMovement + (movementX + movementY), movements + 1,
            (if HEAD_MOVEMENT_THRESHOLD < movementX \<or> HEAD_MOVEMENT_THRESHOLD < movementY
             then True else detected)))"
| "movement_loop _ acc = acc"

definition detectHeadMovement :: "nat \<Rightarrow> LivenessDetector \<Rightarrow> LivenessDetector" where
  "detectHeadMovement now s =
     (case faceLandmarks s of None \<Rightarrow> s | Some lm \<Rightarrow>
      case getNose lm of [] \<Rightarrow> s | nosePoint # _ \<Rightarrow>
        let pushed = frameHistory s @ [\<lparr>at_x = pt_x nosePoint, at_y = pt_y nosePoint,
                                       timestamp = now\<rparr>];
            history = (if maxHistorySize < length pushed then tl pushed else pushed);
            s1 = s\<lparr>frameHistory := history\<rparr>
        in if 3 \<le> length history then
             (case movement_loop history (0, 0, headMovementDetected s1) of
                (totalMovement, movements, detected) \<Rightarrow>
                  let s2 = s1\<lparr>headMovementDetected := detected\<rparr>;
                      avgMovement = totalMovement / real movements
                  in if avgMovement < PHOTO_SPOOFING_THRESHOLD \<and> 5 \<le> length history
                     then s2\<lparr>photoSpoofingDetected := True\<rparr> else s2)
           else s1)"

section \<open>Spoofing heuristics\<close>

definition calculateExpressionVariation :: "real \<Rightarrow> real" where
  "calculateExpressionVariation random = random * 0.5 + 0.5"

fun variation_loop :: "sample list \<Rightarrow> real \<times> nat \<Rightarrow> real \<times> nat" where
  "variation_loop (prv # cur # rest) (totalVariation, count) =
     (let variation = sqrt ((at_x cur - at_x prv)\<^sup>2 + (at_y cur - at_y prv)\<^sup>2)
      in variation_loop (cur # rest) (totalVariation + variation, count + 1))"
| "variation_loop _ acc = acc"

definition calculateMovementVariation :: "LivenessDetector \<Rightarrow> real" where
  "calculateMovementVariation s =
     (if length (frameHistory s) < 2 then 0
      else case variation_loop (frameHistory s) (0, 0) of
             (totalVariation, count) \<Rightarrow>
               if 0 < count then totalVariation / real count else 0)"

definition detectSpoofing :: "real \<Rightarrow> LivenessDetector \<Rightarrow> LivenessDetector" where
  "detectSpoofing random s =
     (let expressionVariation = calculateExpressionVariation random
      in if 8 \<le> length (frameHistory s) then
           (let recentMovements = calculateMovementVariation s
            in if recentMovements < 0.05 then s\<lparr>screenSpoofingDetected := True\<rparr> else s)
         else s)"

section \<open>Scores and status\<close>

definition calculateAntiSpoofingScore :: "LivenessDetector \<Rightarrow> LivenessDetector" where
  "calculateAntiSpoofingScore s =
     (let score0 = (100 :: real);
          score1 = (if photoSpoofingDetected s then score0 - 50 else score0);
          score2 = (if screenSpoofingDetected s then score1 - 50 else score1);
          movementVariation = calculateMovementVariation s;
          score3 = (if movementVariation < 0.1 then score2 - 30 else score2);
          score4 = (if movementVariation < 0.05 then score3 - 20 else score3)
      in s\<lparr>antiSpoofingScore := max 0 (min 100 score4)\<rparr>)"

definition calculateRealPersonScore :: "LivenessDetector \<Rightarrow> real" where
  "calculateRealPersonScore s =
     (let score0 = (0 :: real);
          score1 = (if 2 \<le> blinkCount s then score0 + 40 else score0);
          score2 = (if 3 \<le> blinkCount s then score1 + 10 else score1);
          score3 = (if headMovementDetected s then score2 + 30 else score2);
          score4 = (if mouthOpenDetected s then score3 + 20 else score3);
          score5 = score4 + antiSpoofingScore s * 0.1
      in min 100 score5)"

definition getDetailedStatus :: "LivenessDetector \<Rightarrow> string" where
  "getDetailedStatus s =
     (if photoSpoofingDetected s then ''photo_detected''
      else if screenSpoofingDetected s then ''screen_detected''
      else if blinkCount s < MIN_BLINKS_REQUIRED then ''need_blinks''
      else if \<not> headMovementDetected s then ''need_movement''
      else if antiSpoofingScore s < ANTI_SPOOFING_THRESHOLD then ''suspicious''
      else ''inactive'')"

text \<open>
  The local variable \<^verbatim>\<open>score\<close> of \<^verbatim>\<open>calculateLivenessScore\<close>, as it stands
  before it is clamped.
\<close>

definition liveness_points :: "LivenessDetector \<Rightarrow> real" where
  "liveness_points s =
     (let blinkScore = min (real (blinkCount s) * 20) 40;
          score1 = 0 + blinkScore;
          score2 = (if mouthOpenDetected s then score1 + 20 else score1);
          score3 = (if headMovementDetected s then score2 + 20 else score2);
          antiSpoofingPoints = antiSpoofingScore s * 0.2
      in score3 + antiSpoofingPoints)"

definition calculateLivenessScore :: "LivenessDetector \<Rightarrow> LivenessDetector" where
  "calculateLivenessScore s =
     (let s1 = s\<lparr>livenessScore := min 100 (max 0 (liveness_points s))\<rparr>;
          s2 = s1\<lparr>realPersonScore := calculateRealPersonScore s1\<rparr>;
          hasRequiredBlinks = (MIN_BLINKS_REQUIRED \<le> blinkCount s2);
          hasHeadMovement = headMovementDetected s2;
          hasGoodAntiSpoofing = (ANTI_SPOOFING_THRESHOLD \<le> antiSpoofingScore s2);
          s3 = s2\<lparr>isLivenessActive :=
                    (MIN_LIVENESS_SCORE \<le> livenessScore s2 \<and> hasRequiredBlinks \<and>
                     hasHeadMovement \<and> hasGoodAntiSpoofing \<and>
                     \<not> photoSpoofingDetected s2 \<and> \<not> screenSpoofingDetected s2)\<rparr>
      in s3\<lparr>livenessStatus :=
              (if isLivenessActive s3 then ''active'' else getDetailedStatus s3)\<rparr>)"

section \<open>The session controller\<close>

text \<open>
  A sequence of statements of which any may throw: the first exception ends the sequence, and
  the session keeps what the statements before it have written.
\<close>

fun run_steps ::
  "(LivenessDetector \<Rightarrow> js_error + LivenessDetector) list \<Rightarrow> LivenessDetector
     \<Rightarrow> js_error option \<times> LivenessDetector" where
  "run_steps [] s = (None, s)"
| "run_steps (f # fs) s = (case f s of Inl e \<Rightarrow> (Some e, s) | Inr s' \<Rightarrow> run_steps fs s')"

text \<open>The statements of the \<^verbatim>\<open>try\<close> block after the two early returns.\<close>

definition pipeline ::
  "nat \<Rightarrow> real \<Rightarrow> (LivenessDetector \<Rightarrow> js_error + LivenessDetector) list" where
  "pipeline now random =
     [calculateEyeAspectRatio, calculateMouthAspectRatio, Inr \<circ> detectBlinks,
      Inr \<circ> detectMouthMovements, Inr \<circ> detectHeadMovement now,
      Inr \<circ> detectSpoofing random, Inr \<circ> calculateAntiSpoofingScore,
      Inr \<circ> calculateLivenessScore]"

text \<open>The \<^verbatim>\<open>try\<close> block: what it returns or throws, and the session it leaves.\<close>

definition try_block ::
  "LivenessDetector \<Rightarrow> frame_env \<Rightarrow> (js_error + snapshot) \<times> LivenessDetector" where
  "try_block s env =
     (case detectAllFaces env of
        Throws \<Rightarrow> (Inl DetectorError, s)
      | Resolves detections \<Rightarrow>
          if length detections = 0 then
            (let s' = s\<lparr>livenessStatus := ''no_face''\<rparr> in (Inr (getLivenessData s'), s'))
          else if 1 < length detections then
            (let s' = s\<lparr>livenessStatus := ''multiple_faces''\<rparr>
             in (Inr (getLivenessData s'), s'))
          else
            (let s0 = s\<lparr>faceLandmarks := landmarks (detections ! 0)\<rparr>
             in case run_steps (pipeline (Date_now env) (Math_random env)) s0 of
                  (Some e, s') \<Rightarrow> (Inl e, s')
                | (None, s') \<Rightarrow> (Inr (getLivenessData s'), s')))"

text \<open>
  \<^verbatim>\<open>detectLiveness\<close>. The guard stands before the \<^verbatim>\<open>try\<close>: an exception of
  the guard leaves the function, an exception of the block is caught. \<open>Inl\<close> is the
  rejection of the returned promise.
\<close>

definition detectLiveness ::
  "LivenessDetector \<Rightarrow> frame_env \<Rightarrow> (js_error + snapshot) \<times> LivenessDetector" where
  "detectLiveness s env =
     (if \<not> videoElement env then (Inr (literal_snapshot ''pending'' False), s)
      else case faceapi env of
        Unresolvable \<Rightarrow> (Inl ReferenceError, s)
      | Nullish \<Rightarrow> (Inr (literal_snapshot ''pending'' False), s)
      | Library \<Rightarrow>
          (case try_block s env of
             (Inl error, s') \<Rightarrow> (Inr (literal_snapshot ''error'' True), s')
           | (Inr data, s') \<Rightarrow> (Inr data, s')))"

definition reset :: "LivenessDetector \<Rightarrow> LivenessDetector" where
  "reset s =
     s\<lparr> blinkCount := 0, livenessScore := 0, isLivenessActive := False,
        blinkDetected := False, mouthOpenDetected := False, headMovementDetected := False,
        photoSpoofingDetected := False, screenSpoofingDetected := False,
        eyeClosedFrames := 0, eyeOpenFrames := 0, mouthOpenFrames := 0,
        mouthClosedFrames := 0, antiSpoofingScore := 0, realPersonScore := 0,
        livenessStatus := ''pending'', frameHistory := [] \<rparr>"

text \<open>A session driven through a sequence of calls; the snapshots are dropped.\<close>

fun run_frames :: "LivenessDetector \<Rightarrow> frame_env list \<Rightarrow> LivenessDetector" where
  "run_frames s [] = s"
| "run_frames s (env # envs) = run_frames (snd (detectLiveness s env)) envs"

text \<open>The same, keeping what each call returned.\<close>

fun returned :: "LivenessDetector \<Rightarrow> frame_env list \<Rightarrow> (js_error + snapshot) list" where
  "returned s [] = []"
| "returned s (env # envs) =
     fst (detectLiveness s env) # returned (snd (detectLiveness s env)) envs"

section \<open>Vocabulary of the properties\<close>

text \<open>How many faces the detector reported, when it answered.\<close>

definition faces :: "frame_env \<Rightarrow> nat option" where
  "faces env =
     (case detectAllFaces env of Throws \<Rightarrow> None
      | Resolves detections \<Rightarrow> Some (length detections))"

text \<open>
  A successfully processed single-face frame: the guard lets the call through, the detector
  reports one face, and the \<^verbatim>\<open>try\<close> block returns \<open>data\<close> (no exception),
  leaving the session \<open>s'\<close>.
\<close>

definition processed ::
  "LivenessDetector \<Rightarrow> frame_env \<Rightarrow> snapshot \<Rightarrow> LivenessDetector \<Rightarrow> bool" where
  "processed s env data s' \<longleftrightarrow>
     videoElement env \<and> faceapi env = Library \<and> faces env = Some 1 \<and>
     try_block s env = (Inr data, s')"


text \<open>The landmarks that a call hands to the pipeline, if it gets that far.\<close>

definition frame_landmarks :: "frame_env \<Rightarrow> FaceLandmarks option" where
  "frame_landmarks env =
     (if videoElement env \<and> faceapi env = Library then
        (case detectAllFaces env of
           Resolves detections \<Rightarrow>
             (if length detections = 1 then landmarks (detections ! 0) else None)
         | Throws \<Rightarrow> None)
      else None)"

text \<open>
  The eye and mouth ratios of a frame whose two ratio steps both complete. Such a frame runs
  through the whole pipeline, since no later step can throw.
\<close>

definition frame_ratios :: "frame_env \<Rightarrow> (number \<times> number) option" where
  "frame_ratios env =
     (case frame_landmarks env of None \<Rightarrow> None
      | Some lm \<Rightarrow>
          (case frameEAR lm of Inl e \<Rightarrow> None
           | Inr ear \<Rightarrow>
               (case mouthAR (getMouth lm) of Inl e \<Rightarrow> None
                | Inr mar \<Rightarrow> Some (ear, mar))))"

text \<open>
  The session after a frame with landmarks \<open>lm\<close> whose ratios are \<open>ear\<close> and \<open>mar\<close>:
  the statements of the pipeline in their order.
\<close>

definition complete_frame ::
  "FaceLandmarks \<Rightarrow> number \<Rightarrow> number \<Rightarrow> nat \<Rightarrow> real \<Rightarrow> LivenessDetector
     \<Rightarrow> LivenessDetector" where
  "complete_frame lm ear mar now random s =
     calculateLivenessScore (calculateAntiSpoofingScore (detectSpoofing random
       (detectHeadMovement now (detectMouthMovements (detectBlinks
         (count_mouth_frames mar (store_eye_ratio ear (s\<lparr>faceLandmarks := Some lm\<rparr>))))))))"

text \<open>
  A processed frame whose eye aspect ratio is below the threshold, and one whose ratio is
  not (the \<^verbatim>\<open>else\<close> branch of the comparison).
\<close>

definition eyes_closed :: "frame_env \<Rightarrow> bool" where
  "eyes_closed env =
     (case frame_ratios env of None \<Rightarrow> False
      | Some (ear, mar) \<Rightarrow> js_less ear (Fin 0.25))"



text \<open>The sample that a call appends to the motion history, if it appends one.\<close>

definition appended :: "frame_env \<Rightarrow> sample option" where
  "appended env =
     (case frame_ratios env of None \<Rightarrow> None
      | Some r \<Rightarrow>
          (case frame_landmarks env of None \<Rightarrow> None
           | Some lm \<Rightarrow>
               (case getNose lm of [] \<Rightarrow> None
                | nosePoint # _ \<Rightarrow>
                    Some \<lparr>at_x = pt_x nosePoint, at_y = pt_y nosePoint,
                          timestamp = Date_now env\<rparr>)))"

definition last_n :: "nat \<Rightarrow> 'a list \<Rightarrow> 'a list" where
  "last_n n xs = drop (length xs - n) xs"

text \<open>Two calls that differ at most in the clock and in the random number.\<close>

definition same_landmarks :: "frame_env \<Rightarrow> frame_env \<Rightarrow> bool" where
  "same_landmarks env env' \<longleftrightarrow>
     videoElement env = videoElement env' \<and> faceapi env = faceapi env' \<and>
     detectAllFaces env = detectAllFaces env'"

text \<open>
  The eye aspect ratio in the words of section 4.1 of the specification: the two vertical
  distances averaged, divided by twice the horizontal distance.
\<close>

definition spec_eyeAspectRatio :: "point list \<Rightarrow> real" where
  "spec_eyeAspectRatio eyePoints =
     ((euclid (eyePoints ! 1) (eyePoints ! 5) + euclid (eyePoints ! 2) (eyePoints ! 4)) / 2)
       / (2 * euclid (eyePoints ! 0) (eyePoints ! 3))"

section \<open>Sample frames\<close>

definition pt :: "real \<Rightarrow> real \<Rightarrow> point" where
  "pt a b = \<lparr>pt_x = a, pt_y = b\<rparr>"

definition eye_open :: "point list" where
  "eye_open = [pt 0 0, pt 1 1, pt 1 1, pt 2 0, pt 1 (-1), pt 1 (-1)]"

definition eye_closed :: "point list" where
  "eye_closed = [pt 0 0, pt 1 0, pt 1 0, pt 2 0, pt 1 0, pt 1 0]"

definition mouth_closed :: "point list" where
  "mouth_closed =
     [pt 0 0, pt 0 0, pt 0 0, pt 0 0, pt 0 0, pt 0 0, pt 0 0, pt 0 0, pt 0 0, pt 0 0,
      pt 0 0, pt 0 0, pt 0 0, pt 1 0, pt 1 0, pt 1 0, pt 2 0, pt 1 0, pt 1 0, pt 1 0]"

text \<open>One face with the given eye contour for both eyes and its nose tip at \<open>(nose_x, 0)\<close>.\<close>

definition face :: "point list \<Rightarrow> real \<Rightarrow> frame_env" where
  "face eye nose_x =
     \<lparr>videoElement = True, faceapi = Library,
      detectAllFaces = Resolves [\<lparr>landmarks = Some \<lparr>getLeftEye = eye, getRightEye = eye,
        getMouth = mouth_closed, getNose = [pt nose_x 0]\<rparr>\<rparr>],
      Date_now = 0, Math_random = 0\<rparr>"

definition no_faces :: frame_env where
  "no_faces =
     \<lparr>videoElement = True, faceapi = Library, detectAllFaces = Resolves [],
      Date_now = 0, Math_random = 0\<rparr>"

definition two_faces :: frame_env where
  "two_faces =
     \<lparr>videoElement = True, faceapi = Library,
      detectAllFaces = Resolves [\<lparr>landmarks = None\<rparr>, \<lparr>landmarks = None\<rparr>],
      Date_now = 0, Math_random = 0\<rparr>"

section \<open>Basic facts\<close>

lemmas constants =
  maxHistorySize_def EYE_AR_THRESHOLD_def EYE_AR_CONSEC_FRAMES_def MOUTH_AR_THRESHOLD_def
  MOUTH_AR_CONSEC_FRAMES_def MIN_BLINKS_REQUIRED_def MIN_LIVENESS_SCORE_def
  ANTI_SPOOFING_THRESHOLD_def HEAD_MOVEMENT_THRESHOLD_def PHOTO_SPOOFING_THRESHOLD_def

lemma sqrt36: "sqrt 36 = 6"
  using real_sqrt_abs[of 6] by simp

lemma getEAR_eye_open: "getEAR eye_open = Inr (Fin 1)"
  by (simp add: getEAR_def eye_open_def idx_def euclid_def pt_def)

lemma getEAR_eye_closed: "getEAR eye_closed = Inr (Fin 0)"
  by (simp add: getEAR_def eye_closed_def idx_def euclid_def pt_def)

lemma mouthAR_mouth_closed: "mouthAR mouth_closed = Inr (Fin 0)"
  by (simp add: mouthAR_def mouth_closed_def idx_def euclid_def pt_def)

text \<open>Everything needed to evaluate a call on the sample frames.\<close>

lemmas evaluate =
  detectLiveness_def try_block_def face_def no_faces_def two_faces_def pipeline_def
  calculateEyeAspectRatio_def store_eye_ratio_def count_mouth_frames_def frameEAR_def getEAR_eye_open getEAR_eye_closed
  calculateMouthAspectRatio_def mouthAR_mouth_closed new_LivenessDetector_def constants
  detectBlinks_def detectMouthMovements_def detectHeadMovement_def detectSpoofing_def
  calculateAntiSpoofingScore_def calculateLivenessScore_def liveness_points_def
  calculateMovementVariation_def
  calculateRealPersonScore_def getDetailedStatus_def getLivenessData_def Let_def pt_def
  sqrt36

section \<open>What each step leaves alone\<close>

lemma store_eye_ratio_keeps [simp]:
  "faceLandmarks (store_eye_ratio ear s) = faceLandmarks s"
  "blinkCount (store_eye_ratio ear s) = blinkCount s"
  "livenessStatus (store_eye_ratio ear s) = livenessStatus s"
  "blinkDetected (store_eye_ratio ear s) = blinkDetected s"
  "headMovementDetected (store_eye_ratio ear s) = headMovementDetected s"
  "mouthOpenFrames (store_eye_ratio ear s) = mouthOpenFrames s"
  "mouthClosedFrames (store_eye_ratio ear s) = mouthClosedFrames s"
  "mouthOpenDetected (store_eye_ratio ear s) = mouthOpenDetected s"
  "antiSpoofingScore (store_eye_ratio ear s) = antiSpoofingScore s"
  "livenessScore (store_eye_ratio ear s) = livenessScore s"
  "isLivenessActive (store_eye_ratio ear s) = isLivenessActive s"
  "frameHistory (store_eye_ratio ear s) = frameHistory s"
  "photoSpoofingDetected (store_eye_ratio ear s) = photoSpoofingDetected s"
  "screenSpoofingDetected (store_eye_ratio ear s) = screenSpoofingDetected s"
  "realPersonScore (store_eye_ratio ear s) = realPersonScore s"
  by (simp_all add: store_eye_ratio_def)

lemma count_mouth_frames_keeps [simp]:
  "faceLandmarks (count_mouth_frames mar s) = faceLandmarks s"
  "eyeAspectRatio (count_mouth_frames mar s) = eyeAspectRatio s"
  "blinkCount (count_mouth_frames mar s) = blinkCount s"
  "livenessStatus (count_mouth_frames mar s) = livenessStatus s"
  "eyeClosedFrames (count_mouth_frames mar s) = eyeClosedFrames s"
  "eyeOpenFrames (count_mouth_frames mar s) = eyeOpenFrames s"
  "blinkDetected (count_mouth_frames mar s) = blinkDetected s"
  "headMovementDetected (count_mouth_frames mar s) = headMovementDetected s"
  "mouthOpenDetected (count_mouth_frames mar s) = mouthOpenDetected s"
  "antiSpoofingScore (count_mouth_frames mar s) = antiSpoofingScore s"
  "livenessScore (count_mouth_frames mar s) = livenessScore s"
  "isLivenessActive (count_mouth_frames mar s) = isLivenessActive s"
  "frameHistory (count_mouth_frames mar s) = frameHistory s"
  "photoSpoofingDetected (count_mouth_frames mar s) = photoSpoofingDetected s"
  "screenSpoofingDetected (count_mouth_frames mar s) = screenSpoofingDetected s"
  "realPersonScore (count_mouth_frames mar s) = realPersonScore s"
  by (simp_all add: count_mouth_frames_def)

lemma detectBlinks_keeps [simp]:
  "faceLandmarks (detectBlinks s) = faceLandmarks s"
  "eyeAspectRatio (detectBlinks s) = eyeAspectRatio s"
  "livenessStatus (detectBlinks s) = livenessStatus s"
  "eyeClosedFrames (detectBlinks s) = eyeClosedFrames s"
  "eyeOpenFrames (detectBlinks s) = eyeOpenFrames s"
  "headMovementDetected (detectBlinks s) = headMovementDetected s"
  "mouthOpenFrames (detectBlinks s) = mouthOpenFrames s"
  "mouthClosedFrames (detectBlinks s) = mouthClosedFrames s"
  "mouthOpenDetected (detectBlinks s) = mouthOpenDetected s"
  "antiSpoofingScore (detectBlinks s) = antiSpoofingScore s"
  "livenessScore (detectBlinks s) = livenessScore s"
  "isLivenessActive (detectBlinks s) = isLivenessActive s"
  "frameHistory (detectBlinks s) = frameHistory s"
  "photoSpoofingDetected (detectBlinks s) = photoSpoofingDetected s"
  "screenSpoofingDetected (detectBlinks s) = screenSpoofingDetected s"
  "realPersonScore (detectBlinks s) = realPersonScore s"
  by (simp_all add: detectBlinks_def Let_def)

lemma detectMouthMovements_keeps [simp]:
  "faceLandmarks (detectMouthMovements s) = faceLandmarks s"
  "eyeAspectRatio (detectMouthMovements s) = eyeAspectRatio s"
  "blinkCount (detectMouthMovements s) = blinkCount s"
  "livenessStatus (detectMouthMovements s) = livenessStatus s"
  "eyeClosedFrames (detectMouthMovements s) = eyeClosedFrames s"
  "eyeOpenFrames (detectMouthMovements s) = eyeOpenFrames s"
  "blinkDetected (detectMouthMovements s) = blinkDetected s"
  "headMovementDetected (detectMouthMovements s) = headMovementDetected s"
  "mouthOpenFrames (detectMouthMovements s) = mouthOpenFrames s"
  "mouthClosedFrames (detectMouthMovements s) = mouthClosedFrames s"
  "antiSpoofingScore (detectMouthMovements s) = antiSpoofingScore s"
  "livenessScore (detectMouthMovements s) = livenessScore s"
  "isLivenessActive (detectMouthMovements s) = isLivenessActive s"
  "frameHistory (detectMouthMovements s) = frameHistory s"
  "photoSpoofingDetected (detectMouthMovements s) = photoSpoofingDetected s"
  "screenSpoofingDetected (detectMouthMovements s) = screenSpoofingDetected s"
  "realPersonScore (detectMouthMovements s) = realPersonScore s"
  by (simp_all add: detectMouthMovements_def Let_def)

lemma detectHeadMovement_keeps [simp]:
  "faceLandmarks (detectHeadMovement now s) = faceLandmarks s"
  "eyeAspectRatio (detectHeadMovement now s) = eyeAspectRatio s"
  "blinkCount (detectHeadMovement now s) = blinkCount s"
  "livenessStatus (detectHeadMovement now s) = livenessStatus s"
  "eyeClosedFrames (detectHeadMovement now s) = eyeClosedFrames s"
  "eyeOpenFrames (detectHeadMovement now s) = eyeOpenFrames s"
  "blinkDetected (detectHeadMovement now s) = blinkDetected s"
  "mouthOpenFrames (detectHeadMovement now s) = mouthOpenFrames s"
  "mouthClosedFrames (detectHeadMovement now s) = mouthClosedFrames s"
  "mouthOpenDetected (detectHeadMovement now s) = mouthOpenDetected s"
  "antiSpoofingScore (detectHeadMovement now s) = antiSpoofingScore s"
  "livenessScore (detectHeadMovement now s) = livenessScore s"
  "isLivenessActive (detectHeadMovement now s) = isLivenessActive s"
  "screenSpoofingDetected (detectHeadMovement now s) = screenSpoofingDetected s"
  "realPersonScore (detectHeadMovement now s) = realPersonScore s"
  by (simp_all add: detectHeadMovement_def Let_def split: option.splits list.splits prod.splits)

lemma detectSpoofing_keeps [simp]:
  "faceLandmarks (detectSpoofing random s) = faceLandmarks s"
  "eyeAspectRatio (detectSpoofing random s) = eyeAspectRatio s"
  "blinkCount (detectSpoofing random s) = blinkCount s"
  "livenessStatus (detectSpoofing random s) = livenessStatus s"
  "eyeClosedFrames (detectSpoofing random s) = eyeClosedFrames s"
  "eyeOpenFrames (detectSpoofing random s) = eyeOpenFrames s"
  "blinkDetected (detectSpoofing random s) = blinkDetected s"
  "headMovementDetected (detectSpoofing random s) = headMovementDetected s"
  "mouthOpenFrames (detectSpoofing random s) = mouthOpenFrames s"
  "mouthClosedFrames (detectSpoofing random s) = mouthClosedFrames s"
  "mouthOpenDetected (detectSpoofing random s) = mouthOpenDetected s"
  "antiSpoofingScore (detectSpoofing random s) = antiSpoofingScore s"
  "livenessScore (detectSpoofing random s) = livenessScore s"
  "isLivenessActive (detectSpoofing random s) = isLivenessActive s"
  "frameHistory (detectSpoofing random s) = frameHistory s"
  "photoSpoofingDetected (detectSpoofing random s) = photoSpoofingDetected s"
  "realPersonScore (detectSpoofing random s) = realPersonScore s"
  by (simp_all add: detectSpoofing_def Let_def)

lemma calculateAntiSpoofingScore_keeps [simp]:
  "faceLandmarks (calculateAntiSpoofingScore s) = faceLandmarks s"
  "eyeAspectRatio (calculateAntiSpoofingScore s) = eyeAspectRatio s"
  "blinkCount (calculateAntiSpoofingScore s) = blinkCount s"
  "livenessStatus (calculateAntiSpoofingScore s) = livenessStatus s"
  "eyeClosedFrames (calculateAntiSpoofingScore s) = eyeClosedFrames s"
  "eyeOpenFrames (calculateAntiSpoofingScore s) = eyeOpenFrames s"
  "blinkDetected (calculateAntiSpoofingScore s) = blinkDetected s"
  "headMovementDetected (calculateAntiSpoofingScore s) = headMovementDetected s"
  "mouthOpenFrames (calculateAntiSpoofingScore s) = mouthOpenFrames s"
  "mouthClosedFrames (calculateAntiSpoofingScore s) = mouthClosedFrames s"
  "mouthOpenDetected (calculateAntiSpoofingScore s) = mouthOpenDetected s"
  "livenessScore (calculateAntiSpoofingScore s) = livenessScore s"
  "isLivenessActive (calculateAntiSpoofingScore s) = isLivenessActive s"
  "frameHistory (calculateAntiSpoofingScore s) = frameHistory s"
  "photoSpoofingDetected (calculateAntiSpoofingScore s) = photoSpoofingDetected s"
  "screenSpoofingDetected (calculateAntiSpoofingScore s) = screenSpoofingDetected s"
  "realPersonScore (calculateAntiSpoofingScore s) = realPersonScore s"
  by (simp_all add: calculateAntiSpoofingScore_def Let_def)

lemma calculateLivenessScore_keeps [simp]:
  "faceLandmarks (calculateLivenessScore s) = faceLandmarks s"
  "eyeAspectRatio (calculateLivenessScore s) = eyeAspectRatio s"
  "blinkCount (calculateLivenessScore s) = blinkCount s"
  "eyeClosedFrames (calculateLivenessScore s) = eyeClosedFrames s"
  "eyeOpenFrames (calculateLivenessScore s) = eyeOpenFrames s"
  "blinkDetected (calculateLivenessScore s) = blinkDetected s"
  "headMovementDetected (calculateLivenessScore s) = headMovementDetected s"
  "mouthOpenFrames (calculateLivenessScore s) = mouthOpenFrames s"
  "mouthClosedFrames (calculateLivenessScore s) = mouthClosedFrames s"
  "mouthOpenDetected (calculateLivenessScore s) = mouthOpenDetected s"
  "antiSpoofingScore (calculateLivenessScore s) = antiSpoofingScore s"
  "frameHistory (calculateLivenessScore s) = frameHistory s"
  "photoSpoofingDetected (calculateLivenessScore s) = photoSpoofingDetected s"
  "screenSpoofingDetected (calculateLivenessScore s) = screenSpoofingDetected s"
  by (simp_all add: calculateLivenessScore_def Let_def)

section \<open>Frames that run through the whole pipeline\<close>


lemma run_steps_complete:
  assumes "faceLandmarks s0 = Some lm" and "frameEAR lm = Inr ear"
    and "mouthAR (getMouth lm) = Inr mar"
  shows "run_steps (pipeline now random) s0 =
     (None, calculateLivenessScore (calculateAntiSpoofingScore (detectSpoofing random
       (detectHeadMovement now (detectMouthMovements (detectBlinks
         (count_mouth_frames mar (store_eye_ratio ear s0))))))))"
  using assms
  by (simp add: pipeline_def calculateEyeAspectRatio_def calculateMouthAspectRatio_def)

lemma frame_landmarks_SomeD:
  assumes "frame_landmarks env = Some lm"
  shows "videoElement env \<and> faceapi env = Library \<and>
         (\<exists>detections. detectAllFaces env = Resolves detections \<and> length detections = 1 \<and>
            landmarks (detections ! 0) = Some lm)"
  using assms
  by (auto simp: frame_landmarks_def split: if_splits detector_outcome.splits)

lemma frame_ratios_SomeD:
  assumes "frame_ratios env = Some (ear, mar)"
  shows "\<exists>lm. frame_landmarks env = Some lm \<and> frameEAR lm = Inr ear \<and>
              mouthAR (getMouth lm) = Inr mar"
  using assms
  by (auto simp: frame_ratios_def split: option.splits sum.splits)

lemma detectLiveness_complete:
  assumes "frame_landmarks env = Some lm" and "frameEAR lm = Inr ear"
    and "mouthAR (getMouth lm) = Inr mar"
  shows "try_block s env =
           (Inr (getLivenessData
                  (complete_frame lm ear mar (Date_now env) (Math_random env) s)),
            complete_frame lm ear mar (Date_now env) (Math_random env) s)"
    and "detectLiveness s env =
           (Inr (getLivenessData
                  (complete_frame lm ear mar (Date_now env) (Math_random env) s)),
            complete_frame lm ear mar (Date_now env) (Math_random env) s)"
proof -
  from frame_landmarks_SomeD[OF assms(1)] obtain detections where
    g: "videoElement env" "faceapi env = Library" and
    d: "detectAllFaces env = Resolves detections" "length detections = 1"
       "landmarks (detections ! 0) = Some lm"
    by blast
  have "run_steps (pipeline (Date_now env) (Math_random env)) (s\<lparr>faceLandmarks := Some lm\<rparr>) =
      (None, complete_frame lm ear mar (Date_now env) (Math_random env) s)"
    unfolding complete_frame_def
    by (rule run_steps_complete[OF _ assms(2,3)]) simp
  with d show t: "try_block s env =
           (Inr (getLivenessData
                  (complete_frame lm ear mar (Date_now env) (Math_random env) s)),
            complete_frame lm ear mar (Date_now env) (Math_random env) s)"
    by (simp add: try_block_def)
  with g show "detectLiveness s env =
           (Inr (getLivenessData
                  (complete_frame lm ear mar (Date_now env) (Math_random env) s)),
            complete_frame lm ear mar (Date_now env) (Math_random env) s)"
    by (simp add: detectLiveness_def)
qed

section \<open>Verdict and status\<close>

lemma run_steps_pipeline_done:
  "run_steps (pipeline now random) s0 = (None, s') \<Longrightarrow> \<exists>t. s' = calculateLivenessScore t"
  by (auto simp: pipeline_def split: sum.splits)

lemma verdict_gates:
  "isLivenessActive (calculateLivenessScore t) \<longleftrightarrow>
     80 \<le> livenessScore (calculateLivenessScore t) \<and>
     2 \<le> blinkCount (calculateLivenessScore t) \<and>
     headMovementDetected (calculateLivenessScore t) \<and>
     70 \<le> antiSpoofingScore (calculateLivenessScore t) \<and>
     \<not> photoSpoofingDetected (calculateLivenessScore t) \<and>
     \<not> screenSpoofingDetected (calculateLivenessScore t)"
  by (simp add: calculateLivenessScore_def Let_def constants)


lemma processed_final:
  assumes "processed s env data s'"
  shows "\<exists>t. s' = calculateLivenessScore t" and "data = getLivenessData s'"
    and "detectLiveness s env = (Inr data, s')"
  using assms run_steps_pipeline_done
  by (auto simp: processed_def faces_def try_block_def detectLiveness_def Let_def
      split: detector_outcome.splits if_splits prod.splits option.splits)

lemma processed_verdict:
  assumes "processed s env data s'"
  shows "isLivenessActive s' \<longleftrightarrow>
            80 \<le> livenessScore s' \<and> 2 \<le> blinkCount s' \<and> headMovementDetected s' \<and>
            70 \<le> antiSpoofingScore s' \<and> \<not> photoSpoofingDetected s' \<and>
            \<not> screenSpoofingDetected s'"
proof -
  from processed_final(1)[OF assms] obtain t where t: "s' = calculateLivenessScore t" ..
  show ?thesis unfolding t by (rule verdict_gates)
qed

text \<open>
  Claim C1. For the session \<open>s'\<close> and the snapshot \<open>data\<close> that a successfully
  processed single-face frame produces, whatever the session was before: the returned
  \<open>isActive\<close> is the stored verdict, and it is true if and only if the liveness score is
  at least 80, at least two blinks are counted, head movement is detected, the
  anti-spoofing score is at least 70 and neither spoof flag is raised. In particular a
  session with one counted blink is never active, whatever its liveness score (95 or any
  other value).
\<close>

theorem final_verdict_conjunction:
  assumes "processed s env data s'"
  shows "detectLiveness s env = (Inr data, s') \<and>
         isActive data = isLivenessActive s' \<and>
         (isActive data \<longleftrightarrow>
            80 \<le> livenessScore s' \<and> 2 \<le> blinkCount s' \<and> headMovementDetected s' \<and>
            70 \<le> antiSpoofingScore s' \<and> \<not> photoSpoofingDetected s' \<and>
            \<not> screenSpoofingDetected s') \<and>
         (blinkCount s' = 1 \<longrightarrow> \<not> isActive data)"
proof -
  from processed_final[OF assms] obtain t where t: "s' = calculateLivenessScore t"
    and d: "data = getLivenessData s'" and r: "detectLiveness s env = (Inr data, s')"
    by blast
  have a: "isActive data = isLivenessActive s'"
    by (simp add: d getLivenessData_def)
  from r a processed_verdict[OF assms] show ?thesis by auto
qed


section \<open>The blink detector\<close>

lemma eyes_closedD:
  assumes "eyes_closed env"
  shows "\<exists>lm ear mar. frame_landmarks env = Some lm \<and> frameEAR lm = Inr ear \<and>
           mouthAR (getMouth lm) = Inr mar \<and> js_less ear (Fin EYE_AR_THRESHOLD)"
  using assms frame_ratios_SomeD
  by (fastforce simp: eyes_closed_def constants split: option.splits)



lemma closed_frame_blinks:
  assumes "eyes_closed env"
  shows "eyeClosedFrames (snd (detectLiveness s env)) = eyeClosedFrames s + 1"
    and "eyeOpenFrames (snd (detectLiveness s env)) = 0"
    and "blinkDetected (snd (detectLiveness s env)) \<longleftrightarrow>
           blinkDetected s \<or> 3 \<le> eyeClosedFrames s + 1"
    and "blinkCount (snd (detectLiveness s env)) =
           (if \<not> blinkDetected s \<and> 3 \<le> eyeClosedFrames s + 1 then blinkCount s + 1
            else blinkCount s)"
proof -
  from eyes_closedD[OF assms] obtain lm ear mar where
    f: "frame_landmarks env = Some lm" "frameEAR lm = Inr ear"
       "mouthAR (getMouth lm) = Inr mar" and c: "js_less ear (Fin EYE_AR_THRESHOLD)"
    by blast
  note r = detectLiveness_complete(2)[OF f]
  show "eyeClosedFrames (snd (detectLiveness s env)) = eyeClosedFrames s + 1"
    using c by (simp add: r complete_frame_def store_eye_ratio_def)
  show "eyeOpenFrames (snd (detectLiveness s env)) = 0"
    using c by (simp add: r complete_frame_def store_eye_ratio_def)
  show "blinkDetected (snd (detectLiveness s env)) \<longleftrightarrow>
           blinkDetected s \<or> 3 \<le> eyeClosedFrames s + 1"
    using c by (auto simp: r complete_frame_def store_eye_ratio_def detectBlinks_def
        EYE_AR_CONSEC_FRAMES_def Let_def)
  show "blinkCount (snd (detectLiveness s env)) =
           (if \<not> blinkDetected s \<and> 3 \<le> eyeClosedFrames s + 1 then blinkCount s + 1
            else blinkCount s)"
    using c by (simp add: r complete_frame_def store_eye_ratio_def detectBlinks_def
        EYE_AR_CONSEC_FRAMES_def Let_def)
qed


lemma closed_run:
  assumes "\<forall>env\<in>set run. eyes_closed env"
  shows "eyeClosedFrames (run_frames s run) = eyeClosedFrames s + length run \<and>
         (blinkDetected (run_frames s run) \<longleftrightarrow>
            blinkDetected s \<or> (run \<noteq> [] \<and> 3 \<le> eyeClosedFrames s + length run)) \<and>
         blinkCount (run_frames s run) =
           (if \<not> blinkDetected s \<and> run \<noteq> [] \<and> 3 \<le> eyeClosedFrames s + length run
            then blinkCount s + 1 else blinkCount s) \<and>
         (run \<noteq> [] \<longrightarrow> eyeOpenFrames (run_frames s run) = 0)"
  using assms
proof (induction run arbitrary: s)
  case Nil
  then show ?case by simp
next
  case (Cons env run)
  then have c: "eyes_closed env" and r: "\<forall>e\<in>set run. eyes_closed e" by simp_all
  note st = closed_frame_blinks[OF c, of s]
  note ih = Cons.IH[OF r, of "snd (detectLiveness s env)"]
  show ?case
    using ih st by (cases "run = []") (auto split: if_splits)
qed





section \<open>The forms of a call\<close>

lemma run_steps_no_landmarks:
  assumes "faceLandmarks s0 = None"
  shows "run_steps (pipeline now random) s0 =
     (None, calculateLivenessScore (calculateAntiSpoofingScore (detectSpoofing random
       (detectHeadMovement now (detectMouthMovements (detectBlinks s0))))))"
  using assms
  by (simp add: pipeline_def calculateEyeAspectRatio_def calculateMouthAspectRatio_def)

lemma run_steps_ear_fails:
  assumes "faceLandmarks s0 = Some lm" and "frameEAR lm = Inl e"
  shows "run_steps (pipeline now random) s0 = (Some e, s0)"
  using assms by (simp add: pipeline_def calculateEyeAspectRatio_def)

lemma run_steps_mar_fails:
  assumes "faceLandmarks s0 = Some lm" and "frameEAR lm = Inr ear"
    and "mouthAR (getMouth lm) = Inl e"
  shows "run_steps (pipeline now random) s0 = (Some e, store_eye_ratio ear s0)"
  using assms
  by (simp add: pipeline_def calculateEyeAspectRatio_def calculateMouthAspectRatio_def)

text \<open>
  Which statements a call executes is decided by the argument, the global and the detector's
  answer alone, whatever the session, the clock and the random number are. The six forms:
  the session is not touched; only the status is written; one face without landmarks; the
  eye ratio throws; the mouth ratio throws; the pipeline completes.
\<close>

lemma call_forms:
  obtains
    (untouched) r where "frame_ratios env = None"
      and "\<And>s now random.
             detectLiveness s (env\<lparr>Date_now := now, Math_random := random\<rparr>) = (r, s)"
      and "r = Inl ReferenceError \<or> r = Inr (literal_snapshot ''pending'' False) \<or>
           r = Inr (literal_snapshot ''error'' True)"
  | (early) st where "frame_ratios env = None"
      and "\<And>s now random.
             detectLiveness s (env\<lparr>Date_now := now, Math_random := random\<rparr>) =
               (Inr (getLivenessData (s\<lparr>livenessStatus := st\<rparr>)),
                s\<lparr>livenessStatus := st\<rparr>)"
  | (no_landmarks) "frame_ratios env = None"
      and "\<And>s now random.
             detectLiveness s (env\<lparr>Date_now := now, Math_random := random\<rparr>) =
               (Inr (getLivenessData
                  (calculateLivenessScore (calculateAntiSpoofingScore (detectSpoofing random
                    (detectHeadMovement now (detectMouthMovements (detectBlinks
                      (s\<lparr>faceLandmarks := None\<rparr>)))))))),
                calculateLivenessScore (calculateAntiSpoofingScore (detectSpoofing random
                  (detectHeadMovement now (detectMouthMovements (detectBlinks
                    (s\<lparr>faceLandmarks := None\<rparr>)))))))"
  | (ear_fails) lm where "frame_ratios env = None"
      and "\<And>s now random.
             detectLiveness s (env\<lparr>Date_now := now, Math_random := random\<rparr>) =
               (Inr (literal_snapshot ''error'' True), s\<lparr>faceLandmarks := Some lm\<rparr>)"
  | (mar_fails) lm ear where "frame_ratios env = None"
      and "\<And>s now random.
             detectLiveness s (env\<lparr>Date_now := now, Math_random := random\<rparr>) =
               (Inr (literal_snapshot ''error'' True),
                store_eye_ratio ear (s\<lparr>faceLandmarks := Some lm\<rparr>))"
  | (complete) lm ear mar where "frame_ratios env = Some (ear, mar)"
      and "frame_landmarks env = Some lm"
      and "\<And>s now random.
             detectLiveness s (env\<lparr>Date_now := now, Math_random := random\<rparr>) =
               (Inr (getLivenessData (complete_frame lm ear mar now random s)),
                complete_frame lm ear mar now random s)"
proof (cases "videoElement env \<and> faceapi env = Library")
  case False
  then have n: "frame_ratios env = None"
    by (auto simp: frame_ratios_def frame_landmarks_def)
  show ?thesis
  proof (cases "videoElement env")
    case no_video: False
    show ?thesis
      by (rule untouched[OF n, of "Inr (literal_snapshot ''pending'' False)"])
        (simp_all add: detectLiveness_def no_video)
  next
    case True
    with False have "faceapi env = Unresolvable \<or> faceapi env = Nullish"
      by (cases "faceapi env") simp_all
    then show ?thesis
    proof
      assume u: "faceapi env = Unresolvable"
      show ?thesis
        by (rule untouched[OF n, of "Inl ReferenceError"])
          (simp_all add: detectLiveness_def True u)
    next
      assume u: "faceapi env = Nullish"
      show ?thesis
        by (rule untouched[OF n, of "Inr (literal_snapshot ''pending'' False)"])
          (simp_all add: detectLiveness_def True u)
    qed
  qed
next
  case guard: True
  show ?thesis
  proof (cases "detectAllFaces env")
    case Throws
    with guard have n: "frame_ratios env = None"
      by (simp add: frame_ratios_def frame_landmarks_def)
    show ?thesis
      by (rule untouched[OF n, of "Inr (literal_snapshot ''error'' True)"])
        (simp_all add: detectLiveness_def try_block_def guard Throws)
  next
    case (Resolves detections)
    show ?thesis
    proof (cases "length detections = 1")
      case False
      with guard Resolves have n: "frame_ratios env = None"
        by (simp add: frame_ratios_def frame_landmarks_def)
      show ?thesis
      proof (cases "detections = []")
        case True
        show ?thesis
          by (rule early[OF n, of "''no_face''"])
            (simp add: detectLiveness_def try_block_def Let_def guard Resolves True)
      next
        case ne: False
        with False have m: "1 < length detections"
          by (cases detections) auto
        show ?thesis
          using m
          by (intro early[OF n, of "''multiple_faces''"])
            (simp add: detectLiveness_def try_block_def Let_def guard Resolves ne)
      qed
    next
      case one: True
      with guard Resolves have fl: "frame_landmarks env = landmarks (detections ! 0)"
        by (simp add: frame_landmarks_def)
      from one guard Resolves have dl:
        "detectLiveness s (env\<lparr>Date_now := now, Math_random := random\<rparr>) =
         (case run_steps (pipeline now random)
                 (s\<lparr>faceLandmarks := landmarks (detections ! 0)\<rparr>) of
            (None, s') \<Rightarrow> (Inr (getLivenessData s'), s')
          | (Some e, s') \<Rightarrow> (Inr (literal_snapshot ''error'' True), s'))"
        for s now random
        by (simp add: detectLiveness_def try_block_def Let_def split: prod.splits option.splits)
      show ?thesis
      proof (cases "landmarks (detections ! 0)")
        case None
        with fl have n: "frame_ratios env = None" by (simp add: frame_ratios_def)
        show ?thesis
          by (rule no_landmarks[OF n], unfold dl None, subst run_steps_no_landmarks) simp_all
      next
        case (Some lm)
        show ?thesis
        proof (cases "frameEAR lm")
          case (Inl e)
          with fl Some have n: "frame_ratios env = None" by (simp add: frame_ratios_def)
          show ?thesis
            by (rule ear_fails[OF n, of lm], unfold dl Some,
                subst run_steps_ear_fails[OF _ Inl]) simp_all
        next
          case ear: (Inr ear)
          show ?thesis
          proof (cases "mouthAR (getMouth lm)")
            case (Inl e)
            with fl Some ear have n: "frame_ratios env = None"
              by (simp add: frame_ratios_def)
            show ?thesis
              by (rule mar_fails[OF n, where lm = lm and ear = ear], unfold dl Some,
                  subst run_steps_mar_fails[OF _ ear Inl]) simp_all
          next
            case (Inr mar)
            with fl Some ear have r: "frame_ratios env = Some (ear, mar)"
              by (simp add: frame_ratios_def)
            from fl Some have l: "frame_landmarks env = Some lm" by simp
            show ?thesis
              by (rule complete[OF r l], unfold dl Some complete_frame_def,
                  subst run_steps_complete[OF _ ear Inr]) simp_all
          qed
        qed
      qed
    qed
  qed
qed

text \<open>The same for the call as it is.\<close>

lemma detectLiveness_forms:
  obtains
    (untouched) "frame_ratios env = None" and "snd (detectLiveness s env) = s"
      and "fst (detectLiveness s env) = Inl ReferenceError \<or>
           fst (detectLiveness s env) = Inr (literal_snapshot ''pending'' False) \<or>
           fst (detectLiveness s env) = Inr (literal_snapshot ''error'' True)"
  | (early) st where "frame_ratios env = None"
      and "snd (detectLiveness s env) = s\<lparr>livenessStatus := st\<rparr>"
      and "fst (detectLiveness s env) = Inr (getLivenessData (s\<lparr>livenessStatus := st\<rparr>))"
  | (no_landmarks) "frame_ratios env = None"
      and "snd (detectLiveness s env) =
             calculateLivenessScore (calculateAntiSpoofingScore
               (detectSpoofing (Math_random env)
                 (detectHeadMovement (Date_now env) (detectMouthMovements (detectBlinks
                   (s\<lparr>faceLandmarks := None\<rparr>))))))"
      and "fst (detectLiveness s env) = Inr (getLivenessData (snd (detectLiveness s env)))"
  | (ear_fails) lm where "frame_ratios env = None"
      and "snd (detectLiveness s env) = s\<lparr>faceLandmarks := Some lm\<rparr>"
      and "fst (detectLiveness s env) = Inr (literal_snapshot ''error'' True)"
  | (mar_fails) lm ear where "frame_ratios env = None"
      and "snd (detectLiveness s env) = store_eye_ratio ear (s\<lparr>faceLandmarks := Some lm\<rparr>)"
      and "fst (detectLiveness s env) = Inr (literal_snapshot ''error'' True)"
  | (complete) lm ear mar where "frame_ratios env = Some (ear, mar)"
      and "frame_landmarks env = Some lm"
      and "snd (detectLiveness s env) =
             complete_frame lm ear mar (Date_now env) (Math_random env) s"
      and "fst (detectLiveness s env) = Inr (getLivenessData (snd (detectLiveness s env)))"
proof -
  have e: "env\<lparr>Date_now := Date_now env, Math_random := Math_random env\<rparr> = env"
    by simp
  show ?thesis
  proof (cases rule: call_forms[of env])
    case (untouched r)
    from untouched(2)[where s = s and now = "Date_now env" and random = "Math_random env"] untouched(1,3) that(1)
    show ?thesis unfolding e by simp
  next
    case (early st)
    from early(2)[where s = s and now = "Date_now env" and random = "Math_random env"] early(1) that(2)
    show ?thesis unfolding e by simp
  next
    case no_landmarks
    from no_landmarks(2)[where s = s and now = "Date_now env" and random = "Math_random env"] no_landmarks(1) that(3)
    show ?thesis unfolding e by simp
  next
    case (ear_fails lm)
    from ear_fails(2)[where s = s and now = "Date_now env" and random = "Math_random env"] ear_fails(1) that(4)
    show ?thesis unfolding e by simp
  next
    case (mar_fails lm ear)
    from mar_fails(2)[where s = s and now = "Date_now env" and random = "Math_random env"] mar_fails(1) that(5)
    show ?thesis unfolding e by simp
  next
    case (complete lm ear mar)
    from complete(3)[where s = s and now = "Date_now env" and random = "Math_random env"] complete(1,2) that(6)
    show ?thesis unfolding e by simp
  qed
qed

section \<open>The motion history\<close>

lemma last_n_short: "length xs \<le> n \<Longrightarrow> last_n n xs = xs"
  by (simp add: last_n_def)

lemma last_n_length: "length (last_n n xs) \<le> n"
  by (simp add: last_n_def)

lemma last_n_absorb: "last_n n (last_n n xs @ ys) = last_n n (xs @ ys)"
  by (cases "length xs \<le> n") (auto simp: last_n_def add.commute)

text \<open>Pushing one sample and shifting the oldest out keeps the last ten.\<close>

lemma push_shift:
  assumes "length h \<le> 10"
  shows "(if maxHistorySize < length (h @ [e]) then tl (h @ [e]) else h @ [e]) =
           last_n 10 (h @ [e])"
proof (cases "length h = 10")
  case True
  then have "last_n 10 (h @ [e]) = drop 1 (h @ [e])" by (simp add: last_n_def)
  with True show ?thesis by (cases h) (simp_all add: maxHistorySize_def drop_Suc)
next
  case False
  with assms show ?thesis by (simp add: maxHistorySize_def last_n_def)
qed

lemma detectHeadMovement_history:
  "frameHistory (detectHeadMovement now s) =
     (case faceLandmarks s of None \<Rightarrow> frameHistory s
      | Some lm \<Rightarrow>
          (case getNose lm of [] \<Rightarrow> frameHistory s
           | nosePoint # _ \<Rightarrow>
               (let pushed = frameHistory s @
                      [\<lparr>at_x = pt_x nosePoint, at_y = pt_y nosePoint, timestamp = now\<rparr>]
                in if maxHistorySize < length pushed then tl pushed else pushed)))"
  by (simp add: detectHeadMovement_def Let_def split: option.splits list.splits prod.splits)

lemma frame_history_step:
  "frameHistory (snd (detectLiveness s env)) =
     (case appended env of None \<Rightarrow> frameHistory s
      | Some e \<Rightarrow>
          (if maxHistorySize < length (frameHistory s @ [e]) then tl (frameHistory s @ [e])
           else frameHistory s @ [e]))"
proof (cases rule: detectLiveness_forms[of env s])
  case untouched
  then show ?thesis by (simp add: appended_def)
next
  case (early st)
  then show ?thesis by (simp add: appended_def)
next
  case no_landmarks
  then show ?thesis by (simp add: appended_def detectHeadMovement_history)
next
  case (ear_fails lm)
  then show ?thesis by (simp add: appended_def)
next
  case (mar_fails lm ear)
  then show ?thesis by (simp add: appended_def)
next
  case (complete lm ear mar)
  then show ?thesis
    by (simp add: appended_def complete_frame_def detectHeadMovement_history Let_def
        split: list.splits)
qed

lemma frame_history_run:
  assumes "length (frameHistory s) \<le> 10"
  shows "frameHistory (run_frames s envs) =
           last_n 10 (frameHistory s @ List.map_filter appended envs)"
  using assms
proof (induction envs arbitrary: s)
  case Nil
  then show ?case by (simp add: last_n_short List.map_filter_simps)
next
  case (Cons env envs)
  show ?case
  proof (cases "appended env")
    case None
    with Cons show ?thesis
      by (simp add: frame_history_step List.map_filter_simps)
  next
    case (Some e)
    from Cons.prems have h: "frameHistory (snd (detectLiveness s env)) =
        last_n 10 (frameHistory s @ [e])"
      by (simp only: frame_history_step Some option.case push_shift)
    have "frameHistory (run_frames s (env # envs)) =
          last_n 10 (last_n 10 (frameHistory s @ [e]) @ List.map_filter appended envs)"
      using Cons.IH[of "snd (detectLiveness s env)"] h last_n_length[of 10 "frameHistory s @ [e]"]
      by simp
    then show ?thesis
      by (simp add: last_n_absorb Some List.map_filter_simps)
  qed
qed

text \<open>
  Claim C5. From a session whose motion history has at most ten entries (a new or reset
  session has none), after any sequence of calls the history has at most ten entries, and it
  consists of the last ten of the former entries followed by the samples appended since, in
  the order of their arrival. In particular, after eleven appends to an empty history the
  sample appended first is gone and the ten appended after it remain.
\<close>

theorem motion_history_fifo:
  assumes "length (frameHistory s) \<le> 10"
  shows "length (frameHistory (run_frames s envs)) \<le> 10 \<and>
         frameHistory (run_frames s envs) =
           last_n 10 (frameHistory s @ List.map_filter appended envs) \<and>
         (frameHistory s = [] \<and> List.map_filter appended envs = first # rest \<and>
          length rest = 10 \<longrightarrow> frameHistory (run_frames s envs) = rest)"
proof -
  note r = frame_history_run[OF assms, of envs]
  have "length (frameHistory (run_frames s envs)) \<le> 10"
    unfolding r by (rule last_n_length)
  moreover have "frameHistory s = [] \<and> List.map_filter appended envs = first # rest \<and>
          length rest = 10 \<longrightarrow> frameHistory (run_frames s envs) = rest"
    unfolding r by (auto simp: last_n_def)
  ultimately show ?thesis using r by blast
qed

lemma appended_face:
  "appended (face eye_open x) = Some \<lparr>at_x = x, at_y = 0, timestamp = 0\<rparr>"
  by (simp add: appended_def frame_ratios_def frame_landmarks_def face_def frameEAR_def
      getEAR_eye_open mouthAR_mouth_closed pt_def)

theorem motion_history_fifo_witness:
  "length (frameHistory new_LivenessDetector) \<le> 10 \<and>
   frameHistory (run_frames new_LivenessDetector
     [face eye_open 0, face eye_open 1, face eye_open 2, face eye_open 3, face eye_open 4,
      face eye_open 5, face eye_open 6, face eye_open 7, face eye_open 8, face eye_open 9,
      face eye_open 10]) =
     [\<lparr>at_x = 1, at_y = 0, timestamp = 0\<rparr>, \<lparr>at_x = 2, at_y = 0, timestamp = 0\<rparr>,
      \<lparr>at_x = 3, at_y = 0, timestamp = 0\<rparr>, \<lparr>at_x = 4, at_y = 0, timestamp = 0\<rparr>,
      \<lparr>at_x = 5, at_y = 0, timestamp = 0\<rparr>, \<lparr>at_x = 6, at_y = 0, timestamp = 0\<rparr>,
      \<lparr>at_x = 7, at_y = 0, timestamp = 0\<rparr>, \<lparr>at_x = 8, at_y = 0, timestamp = 0\<rparr>,
      \<lparr>at_x = 9, at_y = 0, timestamp = 0\<rparr>, \<lparr>at_x = 10, at_y = 0, timestamp = 0\<rparr>]"
proof -
  let ?envs = "[face eye_open 0, face eye_open 1, face eye_open 2, face eye_open 3,
      face eye_open 4, face eye_open 5, face eye_open 6, face eye_open 7, face eye_open 8,
      face eye_open 9, face eye_open 10]"
  have h: "length (frameHistory new_LivenessDetector) \<le> 10"
    by (simp add: new_LivenessDetector_def)
  from motion_history_fifo[OF h, of ?envs]
  have "frameHistory (run_frames new_LivenessDetector ?envs) =
          last_n 10 (frameHistory new_LivenessDetector @ List.map_filter appended ?envs)"
    by (rule conjunct1[OF conjunct2])
  also have "\<dots> =
     [\<lparr>at_x = 1, at_y = 0, timestamp = 0\<rparr>, \<lparr>at_x = 2, at_y = 0, timestamp = 0\<rparr>,
      \<lparr>at_x = 3, at_y = 0, timestamp = 0\<rparr>, \<lparr>at_x = 4, at_y = 0, timestamp = 0\<rparr>,
      \<lparr>at_x = 5, at_y = 0, timestamp = 0\<rparr>, \<lparr>at_x = 6, at_y = 0, timestamp = 0\<rparr>,
      \<lparr>at_x = 7, at_y = 0, timestamp = 0\<rparr>, \<lparr>at_x = 8, at_y = 0, timestamp = 0\<rparr>,
      \<lparr>at_x = 9, at_y = 0, timestamp = 0\<rparr>, \<lparr>at_x = 10, at_y = 0, timestamp = 0\<rparr>]"
    by (simp add: new_LivenessDetector_def List.map_filter_simps appended_face last_n_def)
  finally show ?thesis using h by blast
qed

section \<open>The sample frames\<close>

lemma frame_ratios_face_closed: "frame_ratios (face eye_closed x) = Some (Fin 0, Fin 0)"
  by (simp add: frame_ratios_def frame_landmarks_def face_def frameEAR_def
      getEAR_eye_closed mouthAR_mouth_closed)


lemma eyes_closed_face: "eyes_closed (face eye_closed x)"
  by (simp add: eyes_closed_def frame_ratios_face_closed)


lemma processed_complete:
  assumes "frame_ratios env = Some r"
  shows "processed s env (getLivenessData (snd (detectLiveness s env)))
           (snd (detectLiveness s env))"
proof -
  obtain ear mar where r: "r = (ear, mar)" by (cases r)
  from frame_ratios_SomeD[OF assms[unfolded r]] obtain lm where
    f: "frame_landmarks env = Some lm" "frameEAR lm = Inr ear"
       "mouthAR (getMouth lm) = Inr mar"
    by blast
  from frame_landmarks_SomeD[OF f(1)] have "videoElement env" "faceapi env = Library"
    "faces env = Some 1"
    by (auto simp: faces_def)
  with detectLiveness_complete[OF f, of s] show ?thesis
    by (simp add: processed_def)
qed

theorem final_verdict_conjunction_witness:
  "processed (run_frames new_LivenessDetector [face eye_closed 0, face eye_closed 6])
     (face eye_closed 12)
     (getLivenessData (run_frames new_LivenessDetector
        [face eye_closed 0, face eye_closed 6, face eye_closed 12]))
     (run_frames new_LivenessDetector
        [face eye_closed 0, face eye_closed 6, face eye_closed 12]) \<and>
   blinkCount (run_frames new_LivenessDetector
        [face eye_closed 0, face eye_closed 6, face eye_closed 12]) = 1 \<and>
   \<not> isActive (getLivenessData (run_frames new_LivenessDetector
        [face eye_closed 0, face eye_closed 6, face eye_closed 12]))"
proof -
  let ?s2 = "run_frames new_LivenessDetector [face eye_closed 0, face eye_closed 6]"
  let ?s3 = "run_frames new_LivenessDetector
        [face eye_closed 0, face eye_closed 6, face eye_closed 12]"
  have e: "?s3 = snd (detectLiveness ?s2 (face eye_closed 12))" by simp
  have p: "processed ?s2 (face eye_closed 12) (getLivenessData ?s3) ?s3"
    unfolding e by (rule processed_complete[OF frame_ratios_face_closed])
  have "\<forall>env\<in>set [face eye_closed 0, face eye_closed 6, face eye_closed 12].
          eyes_closed env"
    by (simp add: eyes_closed_face)
  from closed_run[OF this, of new_LivenessDetector] have b: "blinkCount ?s3 = 1"
    by (simp add: new_LivenessDetector_def)
  from final_verdict_conjunction[OF p] b p show ?thesis by blast
qed



end
